theory Spec2Isabelle
  imports Complex_Main "HOL-Library.AList"
begin

section \<open>Errors of the embedded Python\<close>

text \<open>
  Every \<^verbatim>\<open>raise\<close> of the source, and every exception of a library call the source
  relies on, is a value of this type; a fallible function returns \<open>py_error + 'a\<close>
  with \<open>Inl\<close> for the exception.
\<close>

datatype py_error =
    ValueError string
  | KeyError string
  | AttributeError string
  | OtherException string

section \<open>utils: \<^verbatim>\<open>create_duration_labels\<close>\<close>

text \<open>
  \<^verbatim>\<open>default_bins = [0, 15, 30, 45, 60, 90, 120]\<close> and the seven labels of the source.
  The last label, for more than 120 minutes, has an a with an acute accent, written
  here as its two UTF-8 bytes.
\<close>

definition default_bins :: "int list" where
  "default_bins = [0, 15, 30, 45, 60, 90, 120]"

definition default_labels :: "string list" where
  "default_labels =
     [''De 0 a 15'', ''De 15 a 30'', ''De 30 a 45'', ''De 45 a 60'',
      ''De 60 a 90'', ''De 90 a 120'', ''M'' @ [CHR 0xC3, CHR 0xA1] @ ''s de 120'']"

text \<open>\<^verbatim>\<open>sorted(set(xs))\<close>: the distinct elements in ascending order.\<close>

definition sorted_set :: "int list \<Rightarrow> int list" where
  "sorted_set xs = sort (remdups xs)"

text \<open>\<^verbatim>\<open>xs.index(x)\<close>: the first position of \<open>x\<close>, ValueError when it is absent.\<close>

fun list_index :: "int list \<Rightarrow> int \<Rightarrow> py_error + nat" where
  "list_index [] x = Inl (ValueError ''is not in list'')"
| "list_index (y # ys) x =
     (if y = x then Inr 0
      else case list_index ys x of Inl e \<Rightarrow> Inl e | Inr i \<Rightarrow> Inr (Suc i))"

text \<open>
  \<^verbatim>\<open>durations.max()\<close> on a series of finite numbers; on an empty series pandas
  returns NaN and \<^verbatim>\<open>ceil\<close> raises ValueError.
\<close>

fun series_max :: "real list \<Rightarrow> real option" where
  "series_max [] = None"
| "series_max (x # xs) = Some (fold max xs x)"

text \<open>
  The body of \<^verbatim>\<open>create_duration_labels\<close> after \<^verbatim>\<open>max_duration_asint\<close> is known:
  insert at the front, sort the set, find the index, conditionally append to
  \<^verbatim>\<open>default_bins\<close>, slice both lists.
\<close>

definition duration_labels_of_max :: "int \<Rightarrow> py_error + (int list \<times> string list)" where
  "duration_labels_of_max max_duration_asint =
     (let bins0 = max_duration_asint # default_bins;
          bins1 = sorted_set bins0
      in case list_index bins1 max_duration_asint of
           Inl e \<Rightarrow> Inl e
         | Inr ix \<Rightarrow>
             (let default_bins' =
                    (if ix + 1 \<ge> length default_bins \<and> max_duration_asint \<noteq> last default_bins
                     then default_bins @ [max_duration_asint]
                     else default_bins);
                  custom_bins = take (ix + 1) default_bins';
                  custom_labels = take ix default_labels
              in Inr (custom_bins, custom_labels)))"

definition create_duration_labels :: "real list \<Rightarrow> py_error + (int list \<times> string list)" where
  "create_duration_labels durations =
     (case series_max durations of
        None \<Rightarrow> Inl (ValueError ''cannot convert float NaN to integer'')
      | Some max_duration_raw \<Rightarrow> duration_labels_of_max \<lceil>max_duration_raw\<rceil>)"

text \<open>
  Specification-side helper: the number of default edges strictly below \<open>m\<close>. It is the
  position at which \<open>m\<close> lands in the sorted set of edges.
\<close>

definition below_count :: "int \<Rightarrow> nat" where
  "below_count m = length (filter (\<lambda>y. y < m) default_bins)"

section \<open>utils: \<^verbatim>\<open>swap_xy\<close>\<close>

text \<open>
  A coordinate tuple of a shapely geometry has two or three components. The component
  type is left open: the swap only moves components, it never computes with them.
\<close>

datatype 'a coord = XY 'a 'a | XYZ 'a 'a 'a

text \<open>
  The geometry classes by their \<^verbatim>\<open>geom.type\<close>: the three classes with a \<^verbatim>\<open>coords\<close>
  sequence, the polygon with its exterior ring and its interior rings, the four
  collection classes with their parts (\<^verbatim>\<open>geom.geoms\<close>), and any other class, which
  carries its type name.
\<close>

datatype 'a geometry =
    Point "'a coord list"
  | LineString "'a coord list"
  | LinearRing "'a coord list"
  | Polygon "'a coord list" "'a coord list list"
  | MultiPoint "'a geometry list"
  | MultiLineString "'a geometry list"
  | MultiPolygon "'a geometry list"
  | GeometryCollection "'a geometry list"
  | OtherGeometry string "'a coord list"











section \<open>Data frames\<close>

text \<open>
  A (geo) data frame as the functions of \<^verbatim>\<open>geom.py\<close> use it: the ordered column names,
  and the rows in order, each with its index label, its geometry and its cells. A cell
  that is missing from a row is the not-a-number cell of pandas (an unset value). The
  geometry column is kept apart from the other columns; a plain DataFrame has the
  geometry type \<open>unit\<close>. Index labels may repeat, as they may in pandas.
\<close>

type_synonym 'v cells = "(string \<times> 'v) list"

type_synonym ('g, 'v) frow = "nat \<times> 'g \<times> 'v cells"

record ('g, 'v) frame =
  columns :: "string list"
  rows :: "('g, 'v) frow list"

definition row_label :: "('g, 'v) frow \<Rightarrow> nat" where
  "row_label r = fst r"

definition row_geometry :: "('g, 'v) frow \<Rightarrow> 'g" where
  "row_geometry r = fst (snd r)"

definition row_cells :: "('g, 'v) frow \<Rightarrow> 'v cells" where
  "row_cells r = snd (snd r)"

text \<open>\<^verbatim>\<open>df[name]\<close>: the column as a series of (label, value); KeyError for an unknown name.\<close>

definition get_column :: "('g, 'v) frame \<Rightarrow> string \<Rightarrow> py_error + (nat \<times> 'v option) list" where
  "get_column df name =
     (if name \<in> set (columns df)
      then Inr (map (\<lambda>r. (row_label r, map_of (row_cells r) name)) (rows df))
      else Inl (KeyError name))"

text \<open>\<^verbatim>\<open>series.between(left, right)\<close>, both ends inclusive; not-a-number is never between.\<close>

definition between :: "(nat \<times> real option) list \<Rightarrow> real \<Rightarrow> real \<Rightarrow> (nat \<times> bool) list" where
  "between series left right =
     map (\<lambda>(l, v). (l, case v of None \<Rightarrow> False | Some x \<Rightarrow> left \<le> x \<and> x \<le> right)) series"

text \<open>\<^verbatim>\<open>a & b\<close> on two boolean series of the same frame, element by element.\<close>

definition series_and :: "(nat \<times> bool) list \<Rightarrow> (nat \<times> bool) list \<Rightarrow> (nat \<times> bool) list" where
  "series_and a b = map (\<lambda>((l, x), (_, y)). (l, x \<and> y)) (zip a b)"

text \<open>\<^verbatim>\<open>df[mask]\<close>: the rows whose mask entry is true, in order, labels kept.\<close>

definition boolean_index :: "('g, 'v) frame \<Rightarrow> (nat \<times> bool) list \<Rightarrow> ('g, 'v) frame" where
  "boolean_index df bmask =
     df\<lparr>rows := map fst (filter (\<lambda>(r, m). snd m) (zip (rows df) bmask))\<rparr>"

section \<open>geom: \<^verbatim>\<open>filter_population\<close>\<close>

text \<open>
  \<^verbatim>\<open>gpd.points_from_xy(x, y)\<close>: one point per pair. A not-a-number coordinate, which no
  row kept by the filter has, gives the point without coordinates here.
\<close>

definition points_from_xy ::
  "(nat \<times> real option) list \<Rightarrow> (nat \<times> real option) list \<Rightarrow> real geometry list" where
  "points_from_xy xs ys =
     map (\<lambda>((_, x), (_, y)).
            case (x, y) of (Some a, Some b) \<Rightarrow> Point [XY a b] | _ \<Rightarrow> Point [])
         (zip xs ys)"

text \<open>\<^verbatim>\<open>gpd.GeoDataFrame(df, geometry=geoms)\<close>: the geometry column set row by row.\<close>

definition GeoDataFrame :: "('g, 'v) frame \<Rightarrow> 'h list \<Rightarrow> ('h, 'v) frame" where
  "GeoDataFrame df geoms =
     \<lparr>columns = columns df,
      rows = map (\<lambda>(r, g). (row_label r, g, row_cells r)) (zip (rows df) geoms)\<rparr>"

text \<open>
  \<^verbatim>\<open>filter_population\<close>. \<^verbatim>\<open>polygon_gdf.geometry.total_bounds\<close> belongs to geopandas and is
  the parameter \<open>total_bounds\<close>; it gives \<open>(minx, miny, maxx, maxy)\<close>.
\<close>

definition filter_population ::
  "('p \<Rightarrow> real \<times> real \<times> real \<times> real) \<Rightarrow> (unit, real) frame \<Rightarrow> 'p
     \<Rightarrow> py_error + (real geometry, real) frame" where
  "filter_population total_bounds pop_df polygon_gdf =
     (case total_bounds polygon_gdf of (minx, miny, maxx, maxy) \<Rightarrow>
      case get_column pop_df ''longitude'' of Inl e \<Rightarrow> Inl e | Inr lon \<Rightarrow>
      case get_column pop_df ''latitude'' of Inl e \<Rightarrow> Inl e | Inr lat \<Rightarrow>
        (let limits_filter = series_and (between lon minx maxx) (between lat miny maxy);
             filtered_points = boolean_index pop_df limits_filter
         in case get_column filtered_points ''longitude'' of Inl e \<Rightarrow> Inl e | Inr flon \<Rightarrow>
            case get_column filtered_points ''latitude'' of Inl e \<Rightarrow> Inl e | Inr flat \<Rightarrow>
              Inr (GeoDataFrame filtered_points (points_from_xy flon flat))))"

text \<open>
  Specification-side: a row is within the bounds when both coordinates are numbers and
  lie in the closed intervals; \<open>row_point\<close> is the point of its (longitude, latitude).
\<close>

definition in_bounds :: "real \<times> real \<times> real \<times> real \<Rightarrow> real cells \<Rightarrow> bool" where
  "in_bounds b cs =
     (case b of (minx, miny, maxx, maxy) \<Rightarrow>
        (case (map_of cs ''longitude'', map_of cs ''latitude'') of
           (Some lon, Some lat) \<Rightarrow> minx \<le> lon \<and> lon \<le> maxx \<and> miny \<le> lat \<and> lat \<le> maxy
         | _ \<Rightarrow> False))"

definition row_point :: "real cells \<Rightarrow> real geometry" where
  "row_point cs =
     (case (map_of cs ''longitude'', map_of cs ''latitude'') of
        (Some lon, Some lat) \<Rightarrow> Point [XY lon lat]
      | _ \<Rightarrow> Point [])"

section \<open>geom: \<^verbatim>\<open>gen_hexagons\<close>\<close>

text \<open>
  \<^verbatim>\<open>city.explode().reset_index(drop=True)\<close>: every multi-part geometry is replaced by its
  parts, one row each; only the geometries are used afterwards.
\<close>

fun explode_geometry :: "'a geometry \<Rightarrow> 'a geometry list" where
  "explode_geometry (MultiPoint gs) = gs"
| "explode_geometry (MultiLineString gs) = gs"
| "explode_geometry (MultiPolygon gs) = gs"
| "explode_geometry (GeometryCollection gs) = gs"
| "explode_geometry g = [g]"

definition explode :: "('a geometry, 'v) frame \<Rightarrow> 'a geometry list" where
  "explode city = concat (map (\<lambda>r. explode_geometry (row_geometry r)) (rows city))"

text \<open>
  The three accumulators \<^verbatim>\<open>h3_centroids\<close>, \<^verbatim>\<open>h3_polygons\<close>, \<^verbatim>\<open>h3_indexes\<close>. The inner
  loop appends, for each cell, the centroid as a point in (lon, lat) order, the boundary
  with each (lat, lon) pair reversed as a polygon, and the cell identifier.
  \<^verbatim>\<open>h3.h3_to_geo\<close> and \<^verbatim>\<open>h3.h3_to_geo_boundary\<close> belong to the tiling library and are
  parameters.
\<close>

type_synonym h3_acc = "real geometry list \<times> real geometry list \<times> string list"

definition cell_centroid :: "(string \<Rightarrow> real \<times> real) \<Rightarrow> string \<Rightarrow> real geometry" where
  "cell_centroid h3_to_geo hexagon =
     (case h3_to_geo hexagon of (centroid_lat, centroid_lon) \<Rightarrow>
        Point [XY centroid_lon centroid_lat])"

definition cell_polygon :: "(string \<Rightarrow> (real \<times> real) list) \<Rightarrow> string \<Rightarrow> real geometry" where
  "cell_polygon h3_to_geo_boundary hexagon =
     Polygon (map (\<lambda>(lat, lon). XY lon lat) (h3_to_geo_boundary hexagon)) []"

fun hexagon_loop ::
  "(string \<Rightarrow> real \<times> real) \<Rightarrow> (string \<Rightarrow> (real \<times> real) list) \<Rightarrow> string list \<Rightarrow> h3_acc \<Rightarrow> h3_acc"
  where
  "hexagon_loop h3_to_geo h3_to_geo_boundary [] acc = acc"
| "hexagon_loop h3_to_geo h3_to_geo_boundary (hexagon # hexagons)
       (h3_centroids, h3_polygons, h3_indexes) =
     hexagon_loop h3_to_geo h3_to_geo_boundary hexagons
       (h3_centroids @ [cell_centroid h3_to_geo hexagon],
        h3_polygons @ [cell_polygon h3_to_geo_boundary hexagon],
        h3_indexes @ [hexagon])"

text \<open>
  The outer loop over the exploded polygons; \<^verbatim>\<open>h3.polyfill\<close> is a parameter and may
  raise.
\<close>

fun polygon_loop ::
  "(real geometry \<Rightarrow> nat \<Rightarrow> py_error + string list) \<Rightarrow> (string \<Rightarrow> real \<times> real)
     \<Rightarrow> (string \<Rightarrow> (real \<times> real) list) \<Rightarrow> nat \<Rightarrow> real geometry list \<Rightarrow> h3_acc
     \<Rightarrow> py_error + h3_acc" where
  "polygon_loop polyfill h3_to_geo h3_to_geo_boundary resolution [] acc = Inr acc"
| "polygon_loop polyfill h3_to_geo h3_to_geo_boundary resolution (geo # geos) acc =
     (case polyfill geo resolution of
        Inl e \<Rightarrow> Inl e
      | Inr hexagons \<Rightarrow>
          polygon_loop polyfill h3_to_geo h3_to_geo_boundary resolution geos
            (hexagon_loop h3_to_geo h3_to_geo_boundary hexagons acc))"

text \<open>
  \<^verbatim>\<open>gpd.GeoDataFrame(values, geometry=geoms)\<close> from a list: one column, named \<^verbatim>\<open>0\<close>, and
  the labels 0, 1, 2, ...
\<close>

definition frame_of_list :: "'v list \<Rightarrow> 'g list \<Rightarrow> ('g, 'v) frame" where
  "frame_of_list vals geoms =
     \<lparr>columns = [''0''],
      rows = map (\<lambda>(i, v, g). (i, g, [(''0'', v)])) (List.enumerate 0 (zip vals geoms))\<rparr>"

text \<open>
  \<^verbatim>\<open>df.drop_duplicates()\<close>: a row equal in every column, the geometry included, to an
  earlier row is dropped; the first one stays, with its label.
\<close>

fun drop_duplicates_rows :: "('g \<times> 'v cells) list \<Rightarrow> ('g, 'v) frow list \<Rightarrow> ('g, 'v) frow list"
  where
  "drop_duplicates_rows seen [] = []"
| "drop_duplicates_rows seen (r # rs) =
     (if (row_geometry r, row_cells r) \<in> set seen then drop_duplicates_rows seen rs
      else r # drop_duplicates_rows ((row_geometry r, row_cells r) # seen) rs)"

definition drop_duplicates :: "('g, 'v) frame \<Rightarrow> ('g, 'v) frame" where
  "drop_duplicates df = df\<lparr>rows := drop_duplicates_rows [] (rows df)\<rparr>"

definition gen_hexagons ::
  "(real geometry \<Rightarrow> nat \<Rightarrow> py_error + string list) \<Rightarrow> (string \<Rightarrow> real \<times> real)
     \<Rightarrow> (string \<Rightarrow> (real \<times> real) list) \<Rightarrow> nat \<Rightarrow> (real geometry, 'v) frame
     \<Rightarrow> py_error + ((real geometry, string) frame \<times> (real geometry, string) frame)" where
  "gen_hexagons polyfill h3_to_geo h3_to_geo_boundary resolution city =
     (let city_poly = explode city
      in case polygon_loop polyfill h3_to_geo h3_to_geo_boundary resolution city_poly ([], [], []) of
           Inl e \<Rightarrow> Inl e
         | Inr (h3_centroids, h3_polygons, h3_indexes) \<Rightarrow>
             (let city_hexagons = drop_duplicates (frame_of_list h3_indexes h3_polygons);
                  city_centroids = drop_duplicates (frame_of_list h3_indexes h3_centroids)
              in Inr (city_hexagons, city_centroids)))"

text \<open>
  Specification-side: the cell identifiers of an output of \<^verbatim>\<open>gen_hexagons\<close>, row by row
  (the cell of column \<^verbatim>\<open>0\<close>), and the first occurrences of a list of labelled values.
\<close>

definition cell_ids :: "('g, 'v) frame \<Rightarrow> 'v option list" where
  "cell_ids df = map (\<lambda>r. map_of (row_cells r) ''0'') (rows df)"

fun first_occurrences :: "'a list \<Rightarrow> (nat \<times> 'a) list \<Rightarrow> (nat \<times> 'a) list" where
  "first_occurrences seen [] = []"
| "first_occurrences seen ((i, x) # xs) =
     (if x \<in> set seen then first_occurrences seen xs
      else (i, x) # first_occurrences (x # seen) xs)"

section \<open>geom: \<^verbatim>\<open>osmnx_graph_download\<close>\<close>

text \<open>
  Writing one cell: a value is stored under the column name, Python's \<^verbatim>\<open>None\<close> leaves the
  cell unset.
\<close>

definition set_cell :: "string \<Rightarrow> 'v option \<Rightarrow> 'v cells \<Rightarrow> 'v cells" where
  "set_cell name v cs =
     (case v of None \<Rightarrow> AList.delete name cs | Some x \<Rightarrow> AList.update name x cs)"

text \<open>
  \<^verbatim>\<open>df.loc[index, name] = value\<close> with a single label: the cell is written in every row
  that carries the label, and the column is created when it is new.
\<close>

definition add_column :: "string \<Rightarrow> string list \<Rightarrow> string list" where
  "add_column name cols = (if name \<in> set cols then cols else cols @ [name])"

definition loc_set :: "('g, 'v) frame \<Rightarrow> nat \<Rightarrow> string \<Rightarrow> 'v option \<Rightarrow> ('g, 'v) frame" where
  "loc_set df index name v =
     \<lparr>columns = add_column name (columns df),
      rows = map (\<lambda>r. if row_label r = index
                       then (row_label r, row_geometry r, set_cell name v (row_cells r))
                       else r) (rows df)\<rparr>"

text \<open>
  The street-network library: \<^verbatim>\<open>ox.graph_from_polygon\<close>, \<^verbatim>\<open>ox.basic_stats\<close> and
  \<^verbatim>\<open>ox.extended_stats\<close>, each of which may raise. The statistics come back as a
  dictionary. The five switches are \<^verbatim>\<open>connectivity\<close>, \<^verbatim>\<open>anc\<close>, \<^verbatim>\<open>ecc\<close>, \<^verbatim>\<open>bc\<close>, \<^verbatim>\<open>cc\<close>.
\<close>

type_synonym switches = "bool \<times> bool \<times> bool \<times> bool \<times> bool"

record ('g, 'n, 'gr, 'v) osmnx =
  ox_graph_from_polygon :: "'g \<Rightarrow> 'n \<Rightarrow> py_error + 'gr"
  ox_basic_stats :: "'gr \<Rightarrow> py_error + (string \<Rightarrow> 'v option)"
  ox_extended_stats :: "'gr \<Rightarrow> switches \<Rightarrow> py_error + (string \<Rightarrow> 'v option)"

text \<open>The first three statements of the \<^verbatim>\<open>try\<close> block, on the geometry of one row.\<close>

definition row_stats ::
  "('g, 'n, 'gr, 'v) osmnx \<Rightarrow> 'n \<Rightarrow> switches \<Rightarrow> 'g
     \<Rightarrow> py_error + ((string \<Rightarrow> 'v option) \<times> (string \<Rightarrow> 'v option))" where
  "row_stats ox net_type sw geom =
     (case ox_graph_from_polygon ox geom net_type of
        Inl e \<Rightarrow> Inl e
      | Inr graph \<Rightarrow>
          (case ox_basic_stats ox graph of
             Inl e \<Rightarrow> Inl e
           | Inr b_stats \<Rightarrow>
               (case ox_extended_stats ox graph sw of
                  Inl e \<Rightarrow> Inl e
                | Inr ext_stats \<Rightarrow> Inr (b_stats, ext_stats))))"

text \<open>\<^verbatim>\<open>for stat in stats: gdf.loc[index, stat] = d.get(stat)\<close>.\<close>

fun write_stats ::
  "('g, 'v) frame \<Rightarrow> nat \<Rightarrow> (string \<Rightarrow> 'v option) \<Rightarrow> string list \<Rightarrow> ('g, 'v) frame" where
  "write_stats gdf index d [] = gdf"
| "write_stats gdf index d (stat # stats) = write_stats (loc_set gdf index stat (d stat)) index d stats"

text \<open>
  The loop over \<^verbatim>\<open>gdf.iterrows()\<close>. The rows iterated are those the frame had when the loop
  started, as (label, geometry) pairs; the state is the frame being written and the lines
  printed by the handler, each with the label of the row and the exception. An exception
  of the \<^verbatim>\<open>try\<close> block is raised before the first write, so the handler finds the frame
  as the previous iteration left it.
\<close>

fun annotate_rows ::
  "('g, 'n, 'gr, 'v) osmnx \<Rightarrow> 'n \<Rightarrow> string list \<Rightarrow> string list \<Rightarrow> switches \<Rightarrow> (nat \<times> 'g) list
     \<Rightarrow> ('g, 'v) frame \<times> (nat \<times> py_error) list \<Rightarrow> ('g, 'v) frame \<times> (nat \<times> py_error) list"
  where
  "annotate_rows ox net_type basic_stats extended_stats sw [] st = st"
| "annotate_rows ox net_type basic_stats extended_stats sw ((index, geom) # todo) (gdf, printed) =
     (case row_stats ox net_type sw geom of
        Inl err \<Rightarrow>
          annotate_rows ox net_type basic_stats extended_stats sw todo
            (gdf, printed @ [(index, err)])
      | Inr (b_stats, ext_stats) \<Rightarrow>
          annotate_rows ox net_type basic_stats extended_stats sw todo
            (write_stats (write_stats gdf index b_stats basic_stats) index ext_stats extended_stats,
             printed))"

text \<open>
  \<^verbatim>\<open>osmnx_graph_download\<close> on the contents of the data frame: the frame after the call and
  the lines printed.
\<close>

definition osmnx_graph_download ::
  "('g, 'n, 'gr, 'v) osmnx \<Rightarrow> ('g, 'v) frame \<Rightarrow> 'n \<Rightarrow> string list \<Rightarrow> string list \<Rightarrow> switches
     \<Rightarrow> ('g, 'v) frame \<times> (nat \<times> py_error) list" where
  "osmnx_graph_download ox gdf net_type basic_stats extended_stats sw =
     annotate_rows ox net_type basic_stats extended_stats sw
       (map (\<lambda>r. (row_label r, row_geometry r)) (rows gdf)) (gdf, [])"

text \<open>
  Specification-side: the cells of a row once both statistic dictionaries are written,
  and the row as the annotator should leave it.
\<close>

definition annotated_cells ::
  "string list \<Rightarrow> string list \<Rightarrow> (string \<Rightarrow> 'v option) \<Rightarrow> (string \<Rightarrow> 'v option) \<Rightarrow> 'v cells \<Rightarrow> 'v cells"
  where
  "annotated_cells basic_stats extended_stats b_stats ext_stats cs =
     fold (\<lambda>stat. set_cell stat (ext_stats stat)) extended_stats
       (fold (\<lambda>stat. set_cell stat (b_stats stat)) basic_stats cs)"

definition annotated_row ::
  "('g, 'n, 'gr, 'v) osmnx \<Rightarrow> 'n \<Rightarrow> string list \<Rightarrow> string list \<Rightarrow> switches \<Rightarrow> ('g, 'v) frow
     \<Rightarrow> ('g, 'v) frow" where
  "annotated_row ox net_type basic_stats extended_stats sw r =
     (case row_stats ox net_type sw (row_geometry r) of
        Inl err \<Rightarrow> r
      | Inr (b_stats, ext_stats) \<Rightarrow>
          (row_label r, row_geometry r,
           annotated_cells basic_stats extended_stats b_stats ext_stats (row_cells r)))"


text \<open>Specification-side: a row with its cells transformed, label and geometry kept.\<close>

definition update_cells :: "('v cells \<Rightarrow> 'v cells) \<Rightarrow> ('g, 'v) frow \<Rightarrow> ('g, 'v) frow" where
  "update_cells f r = (row_label r, row_geometry r, f (row_cells r))"

section \<open>geom: \<^verbatim>\<open>merge_shape_hex\<close>\<close>

text \<open>
  The join modes and spatial predicates that \<^verbatim>\<open>gpd.sjoin\<close> accepts. The geometric test
  itself belongs to the geometry library and is a parameter \<open>pred\<close>, applied to the
  geometry of the left (point) row and of the right (hexagon) row.
\<close>

datatype join_how = How_inner | How_left | How_right

datatype join_op = Op_intersects | Op_contains | Op_within

text \<open>
  The frame \<^verbatim>\<open>gpd.sjoin(shape, hex, how, op)\<close> returns, as far as the aggregation reads it:
  the column names, and for each joined row the label of the hexagon it was joined to
  (\<^verbatim>\<open>index_right\<close>, unset for a point without hexagon under \<^verbatim>\<open>how='left'\<close>) and its cells.
  A column name that occurs in both frames gets the suffix \<^verbatim>\<open>_left\<close> or \<^verbatim>\<open>_right\<close>.
\<close>

type_synonym 'v jrow = "nat option \<times> 'v cells"

record 'v joined =
  jcolumns :: "string list"
  jrows :: "'v jrow list"

definition suffixed :: "string list \<Rightarrow> string \<Rightarrow> string \<Rightarrow> string" where
  "suffixed other suffix name = (if name \<in> set other then name @ suffix else name)"

definition left_cells :: "('g, 'v) frame \<Rightarrow> ('g, 'v) frame \<Rightarrow> ('g, 'v) frow \<Rightarrow> 'v cells" where
  "left_cells shape hex p = map (\<lambda>(k, v). (suffixed (columns hex) ''_left'' k, v)) (row_cells p)"

definition right_cells :: "('g, 'v) frame \<Rightarrow> ('g, 'v) frame \<Rightarrow> ('g, 'v) frow \<Rightarrow> 'v cells" where
  "right_cells shape hex h = map (\<lambda>(k, v). (suffixed (columns shape) ''_right'' k, v)) (row_cells h)"

definition matches ::
  "(join_op \<Rightarrow> 'g \<Rightarrow> 'g \<Rightarrow> bool) \<Rightarrow> join_op \<Rightarrow> ('g, 'v) frow \<Rightarrow> ('g, 'v) frow \<Rightarrow> bool" where
  "matches pred op p h = pred op (row_geometry p) (row_geometry h)"

text \<open>
  The joined rows. \<^verbatim>\<open>inner\<close>: one row for each pair of a point and a hexagon that satisfy
  the predicate. \<^verbatim>\<open>left\<close>: in addition one row, without hexagon, for each point that
  matches no hexagon. \<^verbatim>\<open>right\<close>: one row for each matching pair and one row, with the
  point's columns unset, for each hexagon that matches no point.
\<close>

definition sjoin_rows ::
  "(join_op \<Rightarrow> 'g \<Rightarrow> 'g \<Rightarrow> bool) \<Rightarrow> ('g, 'v) frame \<Rightarrow> ('g, 'v) frame \<Rightarrow> join_how \<Rightarrow> join_op
     \<Rightarrow> 'v jrow list" where
  "sjoin_rows pred shape hex how op =
     (case how of
        How_inner \<Rightarrow>
          concat (map (\<lambda>p. map (\<lambda>h. (Some (row_label h), left_cells shape hex p @ right_cells shape hex h))
                              (filter (matches pred op p) (rows hex)))
                      (rows shape))
      | How_left \<Rightarrow>
          concat (map (\<lambda>p. case filter (matches pred op p) (rows hex) of
                               [] \<Rightarrow> [(None, left_cells shape hex p)]
                             | hs \<Rightarrow> map (\<lambda>h. (Some (row_label h),
                                                left_cells shape hex p @ right_cells shape hex h)) hs)
                      (rows shape))
      | How_right \<Rightarrow>
          concat (map (\<lambda>h. case filter (\<lambda>p. matches pred op p h) (rows shape) of
                               [] \<Rightarrow> [(Some (row_label h), right_cells shape hex h)]
                             | ps \<Rightarrow> map (\<lambda>p. (Some (row_label h),
                                                left_cells shape hex p @ right_cells shape hex h)) ps)
                      (rows hex)))"

definition sjoin ::
  "(join_op \<Rightarrow> 'g \<Rightarrow> 'g \<Rightarrow> bool) \<Rightarrow> ('g, 'v) frame \<Rightarrow> ('g, 'v) frame \<Rightarrow> join_how \<Rightarrow> join_op
     \<Rightarrow> py_error + 'v joined" where
  "sjoin pred shape hex how op =
     (if ''index_left'' \<in> set (columns shape) \<or> ''index_right'' \<in> set (columns shape)
         \<or> ''index_left'' \<in> set (columns hex) \<or> ''index_right'' \<in> set (columns hex)
      then Inl (ValueError ''index_left and index_right cannot be names in the frames being joined'')
      else Inr \<lparr>jcolumns = map (suffixed (columns hex) ''_left'') (columns shape)
                             @ map (suffixed (columns shape) ''_right'') (columns hex),
                jrows = sjoin_rows pred shape hex how op\<rparr>)"

text \<open>
  \<^verbatim>\<open>joined.groupby('index_right').agg(agg)\<close>. The groups are the hexagon labels that occur
  in the joined rows, in ascending order; rows without a label belong to no group. Each
  entry of \<^verbatim>\<open>agg\<close> names a column, which must exist, and a reducer, which the reduction
  engine resolves by name: \<open>reducer name\<close> is the function the engine applies to the
  values of a group, or \<open>None\<close> when the engine knows no such name and raises. The engine
  is a parameter.
\<close>

definition group_keys :: "'v joined \<Rightarrow> nat list" where
  "group_keys j = sort (remdups (List.map_filter fst (jrows j)))"

definition group_values :: "'v joined \<Rightarrow> nat \<Rightarrow> string \<Rightarrow> 'v option list" where
  "group_values j key col = map (\<lambda>r. map_of (snd r) col) (filter (\<lambda>r. fst r = Some key) (jrows j))"

fun agg_columns ::
  "(string \<Rightarrow> ('v option list \<Rightarrow> 'v option) option) \<Rightarrow> 'v joined \<Rightarrow> (string \<times> string) list
     \<Rightarrow> py_error + (string \<times> 'v option list) list" where
  "agg_columns reducer j [] = Inr []"
| "agg_columns reducer j ((col, name) # agg) =
     (if col \<notin> set (jcolumns j) then Inl (KeyError col)
      else case reducer name of
             None \<Rightarrow> Inl (AttributeError name)
           | Some f \<Rightarrow>
               (case agg_columns reducer j agg of
                  Inl e \<Rightarrow> Inl e
                | Inr cols \<Rightarrow> Inr ((col, map (\<lambda>key. f (group_values j key col)) (group_keys j)) # cols)))"

definition groupby_agg ::
  "(string \<Rightarrow> ('v option list \<Rightarrow> 'v option) option) \<Rightarrow> 'v joined \<Rightarrow> (string \<times> string) list
     \<Rightarrow> py_error + (nat list \<times> (string \<times> 'v option list) list)" where
  "groupby_agg reducer j agg =
     (case agg_columns reducer j agg of Inl e \<Rightarrow> Inl e | Inr cols \<Rightarrow> Inr (group_keys j, cols))"

text \<open>
  \<^verbatim>\<open>df.loc[labels, name] = values\<close> with a list of labels: every label must be in the
  index (KeyError), the rows selected must be as many as the values (ValueError, which
  happens when a selected label repeats in the frame), and then each selected row gets
  the value of its label.
\<close>

definition loc_set_list ::
  "('g, 'v) frame \<Rightarrow> nat list \<Rightarrow> string \<Rightarrow> 'v option list \<Rightarrow> py_error + ('g, 'v) frame" where
  "loc_set_list df labels name vals =
     (if \<not> set labels \<subseteq> row_label ` set (rows df) then Inl (KeyError ''labels not in index'')
      else if length (filter (\<lambda>r. row_label r \<in> set labels) (rows df)) \<noteq> length vals
      then Inl (ValueError ''Must have equal len keys and value when setting with an iterable'')
      else Inr \<lparr>columns = add_column name (columns df),
                rows = map (\<lambda>r. case map_of (zip labels vals) (row_label r) of
                                   None \<Rightarrow> r
                                 | Some v \<Rightarrow> (row_label r, row_geometry r, set_cell name v (row_cells r)))
                           (rows df)\<rparr>)"

text \<open>The loop \<^verbatim>\<open>for key in agg.keys(): ret_hex.loc[hex_merge.index, key] = hex_merge[key].values\<close>.\<close>

fun write_back ::
  "('g, 'v) frame \<Rightarrow> nat list \<Rightarrow> (string \<times> 'v option list) list \<Rightarrow> string list
     \<Rightarrow> py_error + ('g, 'v) frame" where
  "write_back ret_hex index cols [] = Inr ret_hex"
| "write_back ret_hex index cols (key # keys) =
     (case map_of cols key of
        None \<Rightarrow> Inl (KeyError key)
      | Some vals \<Rightarrow>
          (case loc_set_list ret_hex index key vals of
             Inl e \<Rightarrow> Inl e
           | Inr ret_hex' \<Rightarrow> write_back ret_hex' index cols keys))"

text \<open>
  \<^verbatim>\<open>merge_shape_hex\<close> on the contents of the data frames. \<^verbatim>\<open>agg\<close> is the dictionary as the
  list of its items. \<^verbatim>\<open>hex.copy()\<close> has the contents of \<^verbatim>\<open>hex\<close>.
\<close>

definition merge_shape_hex ::
  "(join_op \<Rightarrow> 'g \<Rightarrow> 'g \<Rightarrow> bool) \<Rightarrow> (string \<Rightarrow> ('v option list \<Rightarrow> 'v option) option)
     \<Rightarrow> ('g, 'v) frame \<Rightarrow> ('g, 'v) frame \<Rightarrow> join_how \<Rightarrow> join_op \<Rightarrow> (string \<times> string) list
     \<Rightarrow> py_error + ('g, 'v) frame" where
  "merge_shape_hex pred reducer hex shape how op agg =
     (case sjoin pred shape hex how op of
        Inl e \<Rightarrow> Inl e
      | Inr joined \<Rightarrow>
          (case groupby_agg reducer joined agg of
             Inl e \<Rightarrow> Inl e
           | Inr (index, cols) \<Rightarrow>
               (let ret_hex = hex
                in write_back ret_hex index cols (map fst agg))))"

text \<open>
  The reducers of pandas that the examples use, on a column of numbers: not-a-number
  values are skipped; the sum of no value is 0, the minimum, maximum and mean of no
  value are not-a-number. Every other name is unknown to this table.
\<close>

definition present :: "'v option list \<Rightarrow> 'v list" where
  "present vs = List.map_filter (\<lambda>v. v) vs"

definition pandas_reducer :: "string \<Rightarrow> (real option list \<Rightarrow> real option) option" where
  "pandas_reducer name =
     (if name = ''sum'' then Some (\<lambda>vs. Some (sum_list (present vs)))
      else if name = ''min'' then
        Some (\<lambda>vs. case present vs of [] \<Rightarrow> None | x # xs \<Rightarrow> Some (fold min xs x))
      else if name = ''max'' then
        Some (\<lambda>vs. case present vs of [] \<Rightarrow> None | x # xs \<Rightarrow> Some (fold max xs x))
      else if name = ''mean'' then
        Some (\<lambda>vs. case present vs of [] \<Rightarrow> None
                    | x # xs \<Rightarrow> Some (sum_list (x # xs) / real (length (x # xs))))
      else None)"

text \<open>
  A one-dimensional stand-in for the geometry library in the examples: a hexagon is an
  interval, given by its two ends, a point is an interval of length zero, and a point is
  within, or intersects, a hexagon when it lies between the ends.
\<close>

definition interval_pred :: "join_op \<Rightarrow> real \<times> real \<Rightarrow> real \<times> real \<Rightarrow> bool" where
  "interval_pred op a b =
     (case op of
        Op_within \<Rightarrow> fst b \<le> fst a \<and> snd a \<le> snd b
      | Op_contains \<Rightarrow> fst a \<le> fst b \<and> snd b \<le> snd a
      | Op_intersects \<Rightarrow> fst a \<le> snd b \<and> fst b \<le> snd a)"


section \<open>Data frames as objects\<close>

text \<open>
  Python passes a data frame by reference. The heap lists the data frame objects, a
  reference is a position in it. \<^verbatim>\<open>osmnx_graph_download\<close> writes through the reference it
  is given (\<^verbatim>\<open>gdf.loc[index, stat] = ...\<close>) and returns that reference; \<^verbatim>\<open>merge_shape_hex\<close>
  writes into \<^verbatim>\<open>hex.copy()\<close>, a new object, and returns the reference to it.
\<close>

type_synonym ('g, 'v) heap = "('g, 'v) frame list"

definition call_osmnx_graph_download ::
  "('g, 'n, 'gr, 'v) osmnx \<Rightarrow> ('g, 'v) heap \<Rightarrow> nat \<Rightarrow> 'n \<Rightarrow> string list \<Rightarrow> string list \<Rightarrow> switches
     \<Rightarrow> ('g, 'v) heap \<times> nat \<times> (nat \<times> py_error) list" where
  "call_osmnx_graph_download ox heap gdf net_type basic_stats extended_stats sw =
     (case osmnx_graph_download ox (heap ! gdf) net_type basic_stats extended_stats sw of
        (contents, printed) \<Rightarrow> (heap[gdf := contents], gdf, printed))"

definition call_merge_shape_hex ::
  "(join_op \<Rightarrow> 'g \<Rightarrow> 'g \<Rightarrow> bool) \<Rightarrow> (string \<Rightarrow> ('v option list \<Rightarrow> 'v option) option)
     \<Rightarrow> ('g, 'v) heap \<Rightarrow> nat \<Rightarrow> nat \<Rightarrow> join_how \<Rightarrow> join_op \<Rightarrow> (string \<times> string) list
     \<Rightarrow> ('g, 'v) heap \<times> (py_error + nat)" where
  "call_merge_shape_hex pred reducer heap hex shape how op agg =
     (case merge_shape_hex pred reducer (heap ! hex) (heap ! shape) how op agg of
        Inl e \<Rightarrow> (heap, Inl e)
      | Inr ret_hex \<Rightarrow> (heap @ [ret_hex], Inr (length heap)))"

section \<open>utils: \<^verbatim>\<open>nn_search\<close>\<close>

text \<open>
  \<^verbatim>\<open>np.radians\<close> on an array of (lat, lon) rows. The search structure, \<^verbatim>\<open>BallTree(X,
  metric).query(Y)\<close>, belongs to the machine-learning library and is the parameter
  \<open>tree_query\<close>: from the metric name, the reference rows and the query rows it gives
  the distance to and the position of the nearest reference row for each query row, or
  raises. Numbers are real numbers here, not floating-point numbers.
\<close>

definition radians :: "real \<Rightarrow> real" where
  "radians x = x * pi / 180"

definition radians_rows :: "(real \<times> real) list \<Rightarrow> (real \<times> real) list" where
  "radians_rows xs = map (\<lambda>(lat, lon). (radians lat, radians lon)) xs"




section \<open>Properties of \<^verbatim>\<open>create_duration_labels\<close>\<close>

lemma list_index_sorted:
  "sorted xs \<Longrightarrow> distinct xs \<Longrightarrow> x \<in> set xs \<Longrightarrow>
   list_index xs x = Inr (length (filter (\<lambda>y. y < x) xs))"
proof (induction xs)
  case Nil
  then show ?case by simp
next
  case (Cons y ys)
  show ?case
  proof (cases "y = x")
    case True
    with Cons.prems have "\<forall>z\<in>set ys. \<not> z < x" by auto
    then have "filter (\<lambda>z. z < x) ys = []" by (simp add: filter_empty_conv)
    with True show ?thesis by simp
  next
    case False
    with Cons.prems have "x \<in> set ys" "y < x" by auto
    with Cons show ?thesis using False by simp
  qed
qed

lemma distinct_default_bins: "distinct default_bins"
  by (simp add: default_bins_def)

lemma index_in_sorted_set:
  "list_index (sorted_set (m # default_bins)) m = Inr (below_count m)"
proof -
  have "list_index (sorted_set (m # default_bins)) m
        = Inr (length (filter (\<lambda>y. y < m) (sorted_set (m # default_bins))))"
    unfolding sorted_set_def by (rule list_index_sorted) simp_all
  also have "length (filter (\<lambda>y. y < m) (sorted_set (m # default_bins)))
        = length (remdups (filter (\<lambda>y. y < m) (m # default_bins)))"
    unfolding sorted_set_def by (simp only: filter_sort length_sort remdups_filter)
  also have "\<dots> = below_count m"
    using distinct_default_bins by (simp add: distinct_remdups_id below_count_def)
  finally show ?thesis .
qed

lemma duration_labels_of_max_eq:
  "duration_labels_of_max m =
     Inr (take (below_count m + 1)
            (if below_count m + 1 \<ge> length default_bins \<and> m \<noteq> last default_bins
             then default_bins @ [m] else default_bins),
          take (below_count m) default_labels)"
  by (simp add: duration_labels_of_max_def index_in_sorted_set Let_def)

lemma below_count_le: "below_count m \<le> 7"
proof -
  have "below_count m \<le> length default_bins"
    unfolding below_count_def by (rule length_filter_le)
  then show ?thesis by (simp add: default_bins_def)
qed

lemma below_count_high: "90 < m \<Longrightarrow> m \<le> 120 \<Longrightarrow> below_count m = 6"
  by (simp add: below_count_def default_bins_def)

lemma below_count_over: "120 < m \<Longrightarrow> below_count m = 7"
  by (simp add: below_count_def default_bins_def)

lemma below_count_7: "below_count m = 7 \<Longrightarrow> 120 < m"
  by (simp add: below_count_def default_bins_def split: if_splits)

lemma series_max_Max:
  assumes "ds \<noteq> []"
  shows "series_max ds = Some (Max (set ds))"
proof (cases ds)
  case Nil
  with assms show ?thesis by simp
next
  case (Cons a list)
  then show ?thesis using Max.set_eq_fold [of a list] by simp
qed

lemma create_duration_labels_eq:
  assumes "durations \<noteq> []"
  shows "create_duration_labels durations = duration_labels_of_max \<lceil>Max (set durations)\<rceil>"
  using assms by (simp add: create_duration_labels_def series_max_Max)

lemma duration_labels_lengths:
  "\<exists>edges labels. duration_labels_of_max m = Inr (edges, labels)
      \<and> length edges = length labels + 1"
proof -
  have le: "below_count m \<le> 7" by (rule below_count_le)
  have len_bins: "length default_bins = 7" by (simp add: default_bins_def)
  have len_labels: "length default_labels = 7" by (simp add: default_labels_def)
  show ?thesis
  proof (cases "below_count m = 7")
    case True
    then have "120 < m" by (rule below_count_7)
    with True show ?thesis
      by (simp add: duration_labels_of_max_eq len_bins len_labels default_bins_def)
  next
    case False
    with le have "below_count m < 7" by simp
    then show ?thesis
      by (auto simp add: duration_labels_of_max_eq len_bins len_labels)
  qed
qed

text \<open>
  C10. Whenever the duration series is non-empty, \<^verbatim>\<open>create_duration_labels\<close> returns, and
  the edge list it returns is exactly one longer than the label list:
  \<^verbatim>\<open>len(edges) = len(labels) + 1\<close>.
\<close>

theorem create_duration_labels_lengths:
  assumes "durations \<noteq> []"
  shows "\<exists>edges labels. create_duration_labels durations = Inr (edges, labels)
           \<and> length edges = length labels + 1"
  using assms duration_labels_lengths by (simp add: create_duration_labels_eq)

theorem create_duration_labels_lengths_witness:
  "[50, 12.5 :: real] \<noteq> [] \<and>
   (\<exists>edges labels. create_duration_labels [50, 12.5] = Inr (edges, labels)
      \<and> length edges = length labels + 1)"
  using create_duration_labels_lengths [of "[50, 12.5]"] by simp

lemma ceiling_Max_le:
  assumes "ds \<noteq> []" "\<forall>d\<in>set ds. d \<le> (120::real)"
  shows "\<lceil>Max (set ds)\<rceil> \<le> 120"
proof -
  have "Max (set ds) \<le> 120" using assms by simp
  then show ?thesis by (simp add: ceiling_le_iff)
qed

lemma ceiling_Max_gt:
  assumes "ds \<noteq> []" "\<exists>d\<in>set ds. (90::real) < d"
  shows "90 < \<lceil>Max (set ds)\<rceil>"
proof -
  from assms(2) obtain d where d: "d \<in> set ds" "90 < d" by blast
  then have "d \<le> Max (set ds)" by simp
  with d have "90 < Max (set ds)" by linarith
  then show ?thesis by (simp add: less_ceiling_iff)
qed

lemma duration_labels_default:
  assumes "90 < m" "m \<le> 120"
  shows "duration_labels_of_max m = Inr (default_bins, take 6 default_labels)"
proof -
  have bc: "below_count m = 6" using assms by (rule below_count_high)
  have len: "length default_bins = 7" by (simp add: default_bins_def)
  show ?thesis by (simp add: duration_labels_of_max_eq bc len)
qed

lemma duration_labels_truncated:
  assumes "m \<le> 120"
  shows "duration_labels_of_max m =
           Inr (take (below_count m + 1) default_bins, take (below_count m) default_labels)"
proof -
  have "below_count m \<noteq> 7" using assms below_count_7 [of m] by auto
  with below_count_le [of m] have lt: "below_count m < 7" by simp
  have len: "length default_bins = 7" by (simp add: default_bins_def)
  show ?thesis using lt by (simp add: duration_labels_of_max_eq len)
qed

lemma duration_labels_extended:
  assumes "120 < m"
  shows "duration_labels_of_max m = Inr (default_bins @ [m], default_labels)"
proof -
  have bc: "below_count m = 7" using assms by (rule below_count_over)
  have len: "length default_bins = 7" by (simp add: default_bins_def)
  have len': "length default_labels = 7" by (simp add: default_labels_def)
  have "m \<noteq> last default_bins" using assms by (simp add: default_bins_def)
  then show ?thesis by (simp add: duration_labels_of_max_eq bc len len')
qed

text \<open>
  C6 (as amended). For a non-empty duration series: when every duration is at most 120
  and some duration exceeds 90, the seven default edges come back unmodified with the
  first six labels; when every duration is at most 120, the result is the default edge
  list cut after position \<open>k\<close> and the first \<open>k\<close> labels, where \<open>k\<close> is the number of default
  edges below the ceiling of the maximum; when the maximum is 150, the edge list is the
  default one extended by the single edge 150, with all seven labels.
\<close>

theorem create_duration_labels_bins:
  assumes "durations \<noteq> []"
  shows "((\<forall>d\<in>set durations. d \<le> 120) \<and> (\<exists>d\<in>set durations. 90 < d) \<longrightarrow>
            create_duration_labels durations = Inr (default_bins, take 6 default_labels))
       \<and> ((\<forall>d\<in>set durations. d \<le> 120) \<longrightarrow>
            create_duration_labels durations =
              Inr (take (below_count \<lceil>Max (set durations)\<rceil> + 1) default_bins,
                   take (below_count \<lceil>Max (set durations)\<rceil>) default_labels))
       \<and> (Max (set durations) = 150 \<longrightarrow>
            create_duration_labels durations = Inr (default_bins @ [150], default_labels))"
proof (intro conjI impI)
  assume h: "(\<forall>d\<in>set durations. d \<le> 120) \<and> (\<exists>d\<in>set durations. 90 < d)"
  have "\<lceil>Max (set durations)\<rceil> \<le> 120"
    using ceiling_Max_le [OF assms] h by blast
  moreover have "90 < \<lceil>Max (set durations)\<rceil>"
    using ceiling_Max_gt [OF assms] h by blast
  ultimately show "create_duration_labels durations = Inr (default_bins, take 6 default_labels)"
    using assms by (simp add: create_duration_labels_eq duration_labels_default)
next
  assume "\<forall>d\<in>set durations. d \<le> 120"
  then have "\<lceil>Max (set durations)\<rceil> \<le> 120"
    using ceiling_Max_le [OF assms] by blast
  then show "create_duration_labels durations =
              Inr (take (below_count \<lceil>Max (set durations)\<rceil> + 1) default_bins,
                   take (below_count \<lceil>Max (set durations)\<rceil>) default_labels)"
    using assms by (simp add: create_duration_labels_eq duration_labels_truncated)
next
  assume "Max (set durations) = 150"
  then show "create_duration_labels durations = Inr (default_bins @ [150], default_labels)"
    using assms duration_labels_extended [of 150] by (simp add: create_duration_labels_eq)
qed

theorem create_duration_labels_bins_witness:
  "[100, 30 :: real] \<noteq> [] \<and> (100 :: real) \<le> 120 \<and> (30 :: real) \<le> 120 \<and> (90 :: real) < 100
   \<and> create_duration_labels [100, 30] = Inr (default_bins, take 6 default_labels)
   \<and> [20, 150 :: real] \<noteq> [] \<and> Max (set [20, 150 :: real]) = 150
   \<and> create_duration_labels [20, 150] = Inr (default_bins @ [150], default_labels)"
  using create_duration_labels_bins [of "[100, 30]"] create_duration_labels_bins [of "[20, 150]"]
  by simp

text \<open>
  The claim as written fails for a series whose maximum is 50: the code returns five
  edges and four labels, not the seven default edges.
\<close>

theorem create_duration_labels_bins_counterexample:
  "(50::real) \<le> 120
   \<and> create_duration_labels [50] =
       Inr ([0, 15, 30, 45, 60], [''De 0 a 15'', ''De 15 a 30'', ''De 30 a 45'', ''De 45 a 60''])
   \<and> create_duration_labels [50] \<noteq> Inr (default_bins, take 6 default_labels)"
  by (simp add: create_duration_labels_def duration_labels_of_max_def default_bins_def
      sorted_set_def default_labels_def)

section \<open>Properties of \<^verbatim>\<open>swap_xy\<close>\<close>


















section \<open>Properties of \<^verbatim>\<open>filter_population\<close>\<close>

lemma zip_map_right: "zip xs (map g xs) = map (\<lambda>x. (x, g x)) xs"
  by (induction xs) simp_all

lemma filter_zip_mask:
  "map fst (filter (\<lambda>(r, m). snd m) (zip xs (map g xs))) = filter (\<lambda>x. snd (g x)) xs"
  by (induction xs) simp_all

lemma limits_filter_eq:
  "series_and
     (between (map (\<lambda>r. (row_label r, map_of (row_cells r) ''longitude'')) rs) minx maxx)
     (between (map (\<lambda>r. (row_label r, map_of (row_cells r) ''latitude'')) rs) miny maxy)
   = map (\<lambda>r. (row_label r, in_bounds (minx, miny, maxx, maxy) (row_cells r))) rs"
  by (induction rs) (auto simp: series_and_def between_def in_bounds_def split: option.splits)

lemma points_from_xy_eq:
  "points_from_xy (map (\<lambda>r. (row_label r, map_of (row_cells r) ''longitude'')) rs)
                  (map (\<lambda>r. (row_label r, map_of (row_cells r) ''latitude'')) rs)
   = map (\<lambda>r. row_point (row_cells r)) rs"
  by (induction rs) (auto simp: points_from_xy_def row_point_def split: option.splits)

lemma GeoDataFrame_rows:
  "rows (GeoDataFrame df (map h (rows df))) = map (\<lambda>r. (row_label r, h r, row_cells r)) (rows df)"
  by (simp add: GeoDataFrame_def zip_map_right)

lemma boolean_index_rows:
  "rows (boolean_index df (map g (rows df))) = filter (\<lambda>r. snd (g r)) (rows df)"
  by (simp add: boolean_index_def filter_zip_mask)

lemma boolean_index_columns: "columns (boolean_index df m) = columns df"
  by (simp add: boolean_index_def)

lemma filter_population_eq:
  assumes "''longitude'' \<in> set (columns pop)" "''latitude'' \<in> set (columns pop)"
  shows "filter_population tb pop poly =
     Inr \<lparr>columns = columns pop,
          rows = map (\<lambda>r. (row_label r, row_point (row_cells r), row_cells r))
                     (filter (\<lambda>r. in_bounds (tb poly) (row_cells r)) (rows pop))\<rparr>"
proof -
  obtain minx miny maxx maxy where b: "tb poly = (minx, miny, maxx, maxy)"
    by (cases "tb poly") auto
  let ?m = "map (\<lambda>r. (row_label r, in_bounds (minx, miny, maxx, maxy) (row_cells r))) (rows pop)"
  let ?f = "boolean_index pop ?m"
  have r: "rows ?f = filter (\<lambda>r. in_bounds (minx, miny, maxx, maxy) (row_cells r)) (rows pop)"
    by (simp add: boolean_index_rows)
  have g: "GeoDataFrame ?f (map (\<lambda>r. row_point (row_cells r)) (rows ?f))
           = \<lparr>columns = columns pop,
              rows = map (\<lambda>r. (row_label r, row_point (row_cells r), row_cells r)) (rows ?f)\<rparr>"
    using GeoDataFrame_rows [of ?f "\<lambda>r. row_point (row_cells r)"]
    by (simp add: GeoDataFrame_def boolean_index_columns)
  show ?thesis
    using assms
    by (simp add: filter_population_def b get_column_def limits_filter_eq Let_def
        boolean_index_columns points_from_xy_eq g [unfolded r] r del: map_map)
qed

lemma in_bounds_iff:
  "in_bounds (minx, miny, maxx, maxy) cs \<longleftrightarrow>
     (\<exists>lon lat. map_of cs ''longitude'' = Some lon \<and> map_of cs ''latitude'' = Some lat
        \<and> minx \<le> lon \<and> lon \<le> maxx \<and> miny \<le> lat \<and> lat \<le> maxy)"
  by (auto simp: in_bounds_def split: option.splits)

lemma in_bounds_point:
  assumes "in_bounds (minx, miny, maxx, maxy) cs"
  shows "\<exists>lon lat. map_of cs ''longitude'' = Some lon \<and> map_of cs ''latitude'' = Some lat
        \<and> minx \<le> lon \<and> lon \<le> maxx \<and> miny \<le> lat \<and> lat \<le> maxy
        \<and> row_point cs = Point [XY lon lat]"
  using assms by (auto simp: in_bounds_def row_point_def split: option.splits)

text \<open>
  C3. For a point dataset with a longitude and a latitude column and the bounding box
  \<open>(minx, miny, maxx, maxy)\<close> of the reference polygons, \<^verbatim>\<open>filter_population\<close> returns;
  the rows it keeps are, in order, exactly the rows with
  \<open>minx \<le> longitude \<le> maxx\<close> and \<open>miny \<le> latitude \<le> maxy\<close> (bounds inclusive), so a
  dropped row violates a bound; and every kept row carries the point built from its
  (longitude, latitude) pair.
\<close>

theorem filter_population_bounds:
  assumes "''longitude'' \<in> set (columns pop_df)" and "''latitude'' \<in> set (columns pop_df)"
    and "total_bounds polygon_gdf = (minx, miny, maxx, maxy)"
  shows "\<exists>out. filter_population total_bounds pop_df polygon_gdf = Inr out
     \<and> map (\<lambda>r. (row_label r, row_cells r)) (rows out)
         = filter (\<lambda>(l, cs). \<exists>lon lat.
                      map_of cs ''longitude'' = Some lon \<and> map_of cs ''latitude'' = Some lat
                      \<and> minx \<le> lon \<and> lon \<le> maxx \<and> miny \<le> lat \<and> lat \<le> maxy)
             (map (\<lambda>r. (row_label r, row_cells r)) (rows pop_df))
     \<and> (\<forall>r \<in> set (rows out). \<exists>lon lat.
            map_of (row_cells r) ''longitude'' = Some lon
          \<and> map_of (row_cells r) ''latitude'' = Some lat
          \<and> minx \<le> lon \<and> lon \<le> maxx \<and> miny \<le> lat \<and> lat \<le> maxy
          \<and> row_geometry r = Point [XY lon lat])"
proof -
  let ?b = "(minx, miny, maxx, maxy)"
  let ?out = "\<lparr>columns = columns pop_df,
          rows = map (\<lambda>r. (row_label r, row_point (row_cells r), row_cells r))
                     (filter (\<lambda>r. in_bounds ?b (row_cells r)) (rows pop_df))\<rparr>"
  have e: "filter_population total_bounds pop_df polygon_gdf = Inr ?out"
    using filter_population_eq [OF assms(1,2), of total_bounds polygon_gdf] assms(3) by simp
  have k: "map (\<lambda>r. (row_label r, row_cells r)) (rows ?out)
         = filter (\<lambda>(l, cs). in_bounds ?b cs) (map (\<lambda>r. (row_label r, row_cells r)) (rows pop_df))"
    by (simp add: filter_map comp_def row_label_def row_cells_def)
  have g: "\<forall>r \<in> set (rows ?out). \<exists>lon lat.
            map_of (row_cells r) ''longitude'' = Some lon
          \<and> map_of (row_cells r) ''latitude'' = Some lat
          \<and> minx \<le> lon \<and> lon \<le> maxx \<and> miny \<le> lat \<and> lat \<le> maxy
          \<and> row_geometry r = Point [XY lon lat]"
  proof
    fix r assume "r \<in> set (rows ?out)"
    then obtain r0 :: "(unit, real) frow" where r0: "in_bounds ?b (row_cells r0)"
      and r: "r = (row_label r0, row_point (row_cells r0), row_cells r0)" by auto
    from in_bounds_point [OF r0] r
    show "\<exists>lon lat. map_of (row_cells r) ''longitude'' = Some lon
          \<and> map_of (row_cells r) ''latitude'' = Some lat
          \<and> minx \<le> lon \<and> lon \<le> maxx \<and> miny \<le> lat \<and> lat \<le> maxy
          \<and> row_geometry r = Point [XY lon lat]"
      by (simp add: row_cells_def row_geometry_def)
  qed
  from e k g show ?thesis by (simp only: in_bounds_iff) blast
qed

theorem filter_population_bounds_witness:
  "filter_population (\<lambda>u. (-77.2, -12.2, -76.9, -11.9))
     \<lparr>columns = [''latitude'', ''longitude'', ''population_2020''],
      rows = [(0, (), [(''latitude'', -12.5), (''longitude'', -76.7), (''population_2020'', 2.6)]),
              (1, (), [(''latitude'', -12.0), (''longitude'', -77.0), (''population_2020'', 3)]),
              (2, (), [(''latitude'', -11.9), (''longitude'', -77.2), (''population_2020'', 4)]),
              (3, (), [(''latitude'', -12.1), (''population_2020'', 5)])]\<rparr> ()
   = Inr \<lparr>columns = [''latitude'', ''longitude'', ''population_2020''],
      rows = [(1, Point [XY (-77.0) (-12.0)],
                 [(''latitude'', -12.0), (''longitude'', -77.0), (''population_2020'', 3)]),
              (2, Point [XY (-77.2) (-11.9)],
                 [(''latitude'', -11.9), (''longitude'', -77.2), (''population_2020'', 4)])]\<rparr>"
  using filter_population_bounds [of
     "\<lparr>columns = [''latitude'', ''longitude'', ''population_2020''],
      rows = [(0, (), [(''latitude'', -12.5), (''longitude'', -76.7), (''population_2020'', 2.6)]),
              (1, (), [(''latitude'', -12.0), (''longitude'', -77.0), (''population_2020'', 3)]),
              (2, (), [(''latitude'', -11.9), (''longitude'', -77.2), (''population_2020'', 4)]),
              (3, (), [(''latitude'', -12.1), (''population_2020'', 5)])]\<rparr>"
     "\<lambda>u. (-77.2, -12.2, -76.9, -11.9)" "()" "-77.2" "-12.2" "-76.9" "-11.9"]
  by (simp add: filter_population_def get_column_def series_and_def between_def
      boolean_index_def points_from_xy_def GeoDataFrame_def row_label_def row_cells_def)

section \<open>Properties of \<^verbatim>\<open>gen_hexagons\<close>\<close>

lemma hexagon_loop_eq:
  "hexagon_loop tg tb hs (cs, ps, ixs) =
     (cs @ map (cell_centroid tg) hs, ps @ map (cell_polygon tb) hs, ixs @ hs)"
  by (induction hs arbitrary: cs ps ixs) auto

lemma polygon_loop_inv:
  assumes "polygon_loop pf tg tb res geos (map (cell_centroid tg) ixs, map (cell_polygon tb) ixs, ixs)
             = Inr (cs', ps', ixs')"
  shows "cs' = map (cell_centroid tg) ixs' \<and> ps' = map (cell_polygon tb) ixs'"
  using assms
proof (induction geos arbitrary: ixs)
  case Nil
  then show ?case by auto
next
  case (Cons geo geos)
  from Cons.prems obtain hs where hs: "pf geo res = Inr hs"
    by (cases "pf geo res") auto
  with Cons.prems have
    "polygon_loop pf tg tb res geos
       (map (cell_centroid tg) (ixs @ hs), map (cell_polygon tb) (ixs @ hs), ixs @ hs)
     = Inr (cs', ps', ixs')"
    by (simp add: hexagon_loop_eq)
  then show ?case by (rule Cons.IH)
qed

lemma drop_duplicates_rows_keyed:
  fixes f :: "'v \<Rightarrow> 'g"
  shows "drop_duplicates_rows (map (\<lambda>x. (f x, [(''0'', x)])) seen)
           (map (\<lambda>(i, x). (i, f x, [(''0'', x)])) xs)
         = map (\<lambda>(i, x). (i, f x, [(''0'', x)])) (first_occurrences seen xs)"
proof (induction xs arbitrary: seen)
  case Nil
  then show ?case by simp
next
  case (Cons p xs)
  obtain i x where p: "p = (i, x)" by (cases p)
  have m: "(f x, [(''0'', x)]) \<in> set (map (\<lambda>x. (f x, [(''0'', x)])) seen) \<longleftrightarrow> x \<in> set seen"
    by auto
  show ?case
  proof (cases "x \<in> set seen")
    case True
    with m Cons.IH [of seen] p show ?thesis by (simp add: row_geometry_def row_cells_def)
  next
    case False
    with m Cons.IH [of "x # seen"] p show ?thesis by (simp add: row_geometry_def row_cells_def)
  qed
qed

lemma first_occurrences_distinct:
  "distinct (map snd (first_occurrences seen xs))
   \<and> set (map snd (first_occurrences seen xs)) = set (map snd xs) - set seen"
proof (induction seen xs rule: first_occurrences.induct)
  case (1 seen)
  then show ?case by simp
next
  case (2 seen i x xs)
  then show ?case by (cases "x \<in> set seen") auto
qed

lemma frame_of_list_map:
  "rows (frame_of_list ixs (map f ixs))
     = map (\<lambda>(i, x). (i, f x, [(''0'', x)])) (List.enumerate 0 ixs)"
proof -
  have "List.enumerate n (zip ixs (map f ixs)) = map (\<lambda>(i, x). (i, x, f x)) (List.enumerate n ixs)" for n
    by (induction ixs arbitrary: n) simp_all
  then show ?thesis by (simp add: frame_of_list_def case_prod_unfold)
qed

lemma cell_ids_dedup:
  "cell_ids (drop_duplicates (frame_of_list ixs (map f ixs)))
     = map (Some \<circ> snd) (first_occurrences [] (List.enumerate 0 ixs))
   \<and> map row_label (rows (drop_duplicates (frame_of_list ixs (map f ixs))))
     = map fst (first_occurrences [] (List.enumerate 0 ixs))"
  using drop_duplicates_rows_keyed [of f "[]" "List.enumerate 0 ixs"]
  by (simp add: cell_ids_def drop_duplicates_def frame_of_list_map row_cells_def row_label_def
      case_prod_unfold comp_def)


lemma polygon_loop_total:
  assumes "\<forall>geo \<in> set geos. \<exists>hs. pf geo res = Inr hs"
  shows "\<exists>out. polygon_loop pf tg tb res geos acc = Inr out"
  using assms
proof (induction geos arbitrary: acc)
  case Nil
  show ?case by (cases acc) simp
next
  case (Cons geo geos)
  then obtain hs where "pf geo res = Inr hs" by auto
  with Cons show ?case by simp
qed

text \<open>
  C4. Whenever \<^verbatim>\<open>gen_hexagons\<close> returns its two outputs, the cell identifiers of the hexagon
  output are pairwise distinct (a cell produced for two source polygons appears once), and
  the centroid output carries the same identifiers, row by row and under the same labels,
  so the identifier sets are equal and cells and centroids correspond one to one. It
  returns whenever the tiling library's polyfill returns for every exploded polygon.
\<close>

theorem gen_hexagons_ids:
  "(\<forall>city_hexagons city_centroids.
      gen_hexagons polyfill h3_to_geo h3_to_geo_boundary resolution city
        = Inr (city_hexagons, city_centroids) \<longrightarrow>
        distinct (cell_ids city_hexagons)
      \<and> distinct (cell_ids city_centroids)
      \<and> set (cell_ids city_centroids) = set (cell_ids city_hexagons)
      \<and> cell_ids city_centroids = cell_ids city_hexagons
      \<and> map row_label (rows city_centroids) = map row_label (rows city_hexagons))
   \<and> ((\<forall>geo \<in> set (explode city). \<exists>hexagons. polyfill geo resolution = Inr hexagons) \<longrightarrow>
        (\<exists>out. gen_hexagons polyfill h3_to_geo h3_to_geo_boundary resolution city = Inr out))"
proof (intro conjI allI impI)
  fix city_hexagons city_centroids
  assume a: "gen_hexagons polyfill h3_to_geo h3_to_geo_boundary resolution city
        = Inr (city_hexagons, city_centroids)"
  let ?loop = "polygon_loop polyfill h3_to_geo h3_to_geo_boundary resolution (explode city) ([], [], [])"
  from a obtain cs ps ixs where l: "?loop = Inr (cs, ps, ixs)"
    by (cases ?loop) (auto simp: gen_hexagons_def)
  from polygon_loop_inv [of polyfill h3_to_geo h3_to_geo_boundary resolution "explode city" "[]"] l
  have cs: "cs = map (cell_centroid h3_to_geo) ixs"
    and ps: "ps = map (cell_polygon h3_to_geo_boundary) ixs" by simp_all
  from a l cs ps
  have h: "city_hexagons = drop_duplicates (frame_of_list ixs (map (cell_polygon h3_to_geo_boundary) ixs))"
    and c: "city_centroids = drop_duplicates (frame_of_list ixs (map (cell_centroid h3_to_geo) ixs))"
    by (simp_all add: gen_hexagons_def)
  let ?f = "first_occurrences [] (List.enumerate 0 ixs)"
  have ih: "cell_ids city_hexagons = map (Some \<circ> snd) ?f"
    and lh: "map row_label (rows city_hexagons) = map fst ?f"
    unfolding h using cell_ids_dedup [of ixs "cell_polygon h3_to_geo_boundary"] by simp_all
  have ic: "cell_ids city_centroids = map (Some \<circ> snd) ?f"
    and lc: "map row_label (rows city_centroids) = map fst ?f"
    unfolding c using cell_ids_dedup [of ixs "cell_centroid h3_to_geo"] by simp_all
  have d: "distinct (map (Some \<circ> snd) ?f)"
    using first_occurrences_distinct [of "[]" "List.enumerate 0 ixs"]
    by (simp add: distinct_map comp_def inj_on_def)
  show "distinct (cell_ids city_hexagons)" using d ih by simp
  show "distinct (cell_ids city_centroids)" using d ic by simp
  show "set (cell_ids city_centroids) = set (cell_ids city_hexagons)" using ih ic by simp
  show "cell_ids city_centroids = cell_ids city_hexagons" using ih ic by simp
  show "map row_label (rows city_centroids) = map row_label (rows city_hexagons)"
    using lh lc by simp
next
  assume "\<forall>geo \<in> set (explode city). \<exists>hexagons. polyfill geo resolution = Inr hexagons"
  from polygon_loop_total [of "explode city" polyfill resolution h3_to_geo h3_to_geo_boundary
      "([], [], [])", OF this]
  obtain out where
    "polygon_loop polyfill h3_to_geo h3_to_geo_boundary resolution (explode city) ([], [], []) = Inr out"
    by blast
  then show "\<exists>out. gen_hexagons polyfill h3_to_geo h3_to_geo_boundary resolution city = Inr out"
    by (cases out) (simp add: gen_hexagons_def)
qed


theorem gen_hexagons_ids_witness:
  "gen_hexagons
     (\<lambda>g res. if g = Polygon [XY 0 0, XY 2 0, XY 2 2, XY 0 0] [] then Inr [''a'', ''b'']
                 else Inr [''c'', ''b''])
     (\<lambda>h. if h = ''a'' then (1, 10) else if h = ''b'' then (2, 20) else (3, 30))
     (\<lambda>h. if h = ''a'' then [(1, 10), (1, 11), (2, 10)]
            else if h = ''b'' then [(2, 20), (2, 21), (3, 20)] else [(3, 30), (3, 31), (4, 30)])
     8
     \<lparr>columns = [], rows = [(0, MultiPolygon [Polygon [XY 0 0, XY 2 0, XY 2 2, XY 0 0] [],
                                               Polygon [XY 1 0, XY 3 0, XY 3 2, XY 1 0] []],
                                ([] :: real cells))]\<rparr>
   = Inr (\<lparr>columns = [''0''],
           rows = [(0, Polygon [XY 10 1, XY 11 1, XY 10 2] [], [(''0'', ''a'')]),
                   (1, Polygon [XY 20 2, XY 21 2, XY 20 3] [], [(''0'', ''b'')]),
                   (2, Polygon [XY 30 3, XY 31 3, XY 30 4] [], [(''0'', ''c'')])]\<rparr>,
          \<lparr>columns = [''0''],
           rows = [(0, Point [XY 10 1], [(''0'', ''a'')]),
                   (1, Point [XY 20 2], [(''0'', ''b'')]),
                   (2, Point [XY 30 3], [(''0'', ''c'')])]\<rparr>)
   \<and> distinct (cell_ids \<lparr>columns = [''0''],
           rows = [(0, Polygon [XY (10::real) 1, XY 11 1, XY 10 2] [], [(''0'', ''a'')]),
                   (1, Polygon [XY 20 2, XY 21 2, XY 20 3] [], [(''0'', ''b'')]),
                   (2, Polygon [XY 30 3, XY 31 3, XY 30 4] [], [(''0'', ''c'')])]\<rparr>)"
  using gen_hexagons_ids [of
     "(\<lambda>g res. if g = Polygon [XY 0 0, XY 2 0, XY 2 2, XY 0 0] [] then Inr [''a'', ''b'']
                 else Inr [''c'', ''b''])"
     "(\<lambda>h. if h = ''a'' then (1, 10) else if h = ''b'' then (2, 20) else (3, 30))"
     "(\<lambda>h. if h = ''a'' then [(1, 10), (1, 11), (2, 10)]
            else if h = ''b'' then [(2, 20), (2, 21), (3, 20)] else [(3, 30), (3, 31), (4, 30)])"
     8
     "\<lparr>columns = [], rows = [(0, MultiPolygon [Polygon [XY 0 0, XY 2 0, XY 2 2, XY 0 0] [],
                                               Polygon [XY 1 0, XY 3 0, XY 3 2, XY 1 0] []],
                                ([] :: real cells))]\<rparr>"]
  by (simp add: gen_hexagons_def explode_def row_geometry_def row_cells_def row_label_def
      cell_centroid_def cell_polygon_def frame_of_list_def drop_duplicates_def cell_ids_def)

section \<open>Properties of \<^verbatim>\<open>osmnx_graph_download\<close>\<close>

lemma update_cells_id: "update_cells (\<lambda>cs. cs) r = r"
  by (cases r) (simp add: update_cells_def row_label_def row_geometry_def row_cells_def)


lemma update_cells_label [simp]: "row_label (update_cells f r) = row_label r"
  by (simp add: update_cells_def row_label_def)

lemma update_cells_geometry [simp]: "row_geometry (update_cells f r) = row_geometry r"
  by (simp add: update_cells_def row_geometry_def)

lemma update_cells_cells [simp]: "row_cells (update_cells f r) = f (row_cells r)"
  by (simp add: update_cells_def row_cells_def)



lemma annotated_row_update:
  "row_stats ox net sw (row_geometry r) = Inr (b, x) \<Longrightarrow>
   annotated_row ox net bs es sw r = update_cells (annotated_cells bs es b x) r"
  by (simp add: annotated_row_def update_cells_def)

lemma annotated_row_fail:
  "row_stats ox net sw (row_geometry r) = Inl e \<Longrightarrow> annotated_row ox net bs es sw r = r"
  by (simp add: annotated_row_def)

lemma annotated_row_label [simp]:
  "row_label (annotated_row ox net bs es sw r) = row_label r"
  by (cases "row_stats ox net sw (row_geometry r)")
     (auto simp: annotated_row_fail annotated_row_update)

lemma annotated_row_geometry [simp]:
  "row_geometry (annotated_row ox net bs es sw r) = row_geometry r"
  by (cases "row_stats ox net sw (row_geometry r)")
     (auto simp: annotated_row_fail annotated_row_update)














section \<open>Properties of \<^verbatim>\<open>merge_shape_hex\<close>\<close>

































section \<open>The caller's data frames\<close>

text \<open>
  C9 (as amended). \<^verbatim>\<open>merge_shape_hex\<close> leaves every data frame of the caller as it was, its
  two arguments included, and returns a new data frame, which holds the result. The
  network annotator \<^verbatim>\<open>osmnx_graph_download\<close> returns the very data frame it was given:
  after the call the caller's data frame holds the annotations, and no other data frame
  has changed.
\<close>

theorem calls_and_heap:
  fixes heap :: "('g, 'v) heap"
  shows "(hex < length heap \<and> shape < length heap \<longrightarrow>
      (case call_merge_shape_hex pred reducer heap hex shape how op agg of
         (heap', res) \<Rightarrow>
           (\<forall>a < length heap. heap' ! a = heap ! a)
         \<and> (\<forall>r. res = Inr r \<longrightarrow>
                r = length heap \<and> r \<noteq> hex \<and> r \<noteq> shape \<and> r < length heap'
              \<and> merge_shape_hex pred reducer (heap ! hex) (heap ! shape) how op agg
                  = Inr (heap' ! r))))
   \<and> (gdf < length heap \<longrightarrow>
      (case call_osmnx_graph_download ox heap gdf net_type basic_stats extended_stats sw of
         (heap', r, printed) \<Rightarrow>
           r = gdf \<and> length heap' = length heap
         \<and> heap' ! gdf
             = fst (osmnx_graph_download ox (heap ! gdf) net_type basic_stats extended_stats sw)
         \<and> (\<forall>a. a \<noteq> gdf \<longrightarrow> heap' ! a = heap ! a)))"
proof (intro conjI impI)
  assume "hex < length heap \<and> shape < length heap"
  then show "case call_merge_shape_hex pred reducer heap hex shape how op agg of
         (heap', res) \<Rightarrow>
           (\<forall>a < length heap. heap' ! a = heap ! a)
         \<and> (\<forall>r. res = Inr r \<longrightarrow>
                r = length heap \<and> r \<noteq> hex \<and> r \<noteq> shape \<and> r < length heap'
              \<and> merge_shape_hex pred reducer (heap ! hex) (heap ! shape) how op agg
                  = Inr (heap' ! r))"
    by (cases "merge_shape_hex pred reducer (heap ! hex) (heap ! shape) how op agg")
       (auto simp: call_merge_shape_hex_def nth_append)
next
  assume "gdf < length heap"
  then show "case call_osmnx_graph_download ox heap gdf net_type basic_stats extended_stats sw of
         (heap', r, printed) \<Rightarrow>
           r = gdf \<and> length heap' = length heap
         \<and> heap' ! gdf
             = fst (osmnx_graph_download ox (heap ! gdf) net_type basic_stats extended_stats sw)
         \<and> (\<forall>a. a \<noteq> gdf \<longrightarrow> heap' ! a = heap ! a)"
    by (cases "osmnx_graph_download ox (heap ! gdf) net_type basic_stats extended_stats sw")
       (auto simp: call_osmnx_graph_download_def)
qed


theorem calls_and_heap_witness:
  "call_merge_shape_hex interval_pred pandas_reducer
       [\<lparr>columns = [''0''],
        rows = [(0, (0::real, 10::real), [(''0'', 100::real)]), (1, (10, 20), [(''0'', 101)]),
                (2, (20, 30), [(''0'', 102)])]\<rparr>,
        \<lparr>columns = [''population''],
        rows = [(0, (1::real, 1::real), [(''population'', 10::real)]), (1, (2, 2), [(''population'', 20)]),
                (2, (15, 15), [(''population'', 5)]), (3, (40, 40), [(''population'', 7)])]\<rparr>]
       0 1 How_inner Op_within [(''population'', ''sum'')]
     = ([\<lparr>columns = [''0''],
        rows = [(0, (0::real, 10::real), [(''0'', 100::real)]), (1, (10, 20), [(''0'', 101)]),
                (2, (20, 30), [(''0'', 102)])]\<rparr>,
         \<lparr>columns = [''population''],
        rows = [(0, (1::real, 1::real), [(''population'', 10::real)]), (1, (2, 2), [(''population'', 20)]),
                (2, (15, 15), [(''population'', 5)]), (3, (40, 40), [(''population'', 7)])]\<rparr>,
         \<lparr>columns = [''0'', ''population''],
        rows = [(0, (0, 10), [(''0'', 100), (''population'', 30)]),
                (1, (10, 20), [(''0'', 101), (''population'', 5)]),
                (2, (20, 30), [(''0'', 102)])]\<rparr>], Inr 2)
   \<and> call_osmnx_graph_download
       \<lparr>ox_graph_from_polygon =
          (\<lambda>g n. if g = (10::real, 20::real) then Inl (OtherException ''empty graph'') else Inr (snd g)),
        ox_basic_stats = (\<lambda>gr. Inr (\<lambda>s. if s = ''n'' then Some gr else None)),
        ox_extended_stats = (\<lambda>gr sw. Inr (\<lambda>s. None))\<rparr>
       [\<lparr>columns = [''0''],
        rows = [(0, (0::real, 10::real), [(''0'', 100::real)]), (1, (10, 20), [(''0'', 101)]),
                (2, (20, 30), [(''0'', 102)])]\<rparr>,
        \<lparr>columns = [''population''],
        rows = [(0, (1::real, 1::real), [(''population'', 10::real)]), (1, (2, 2), [(''population'', 20)]),
                (2, (15, 15), [(''population'', 5)]), (3, (40, 40), [(''population'', 7)])]\<rparr>]
       0 () [''n''] [] (False, False, False, False, False)
     = ([\<lparr>columns = [''0'', ''n''],
        rows = [(0, (0::real, 10::real), [(''0'', 100::real), (''n'', 10)]), (1, (10, 20), [(''0'', 101)]),
                (2, (20, 30), [(''0'', 102), (''n'', 30)])]\<rparr>,
         \<lparr>columns = [''population''],
        rows = [(0, (1::real, 1::real), [(''population'', 10::real)]), (1, (2, 2), [(''population'', 20)]),
                (2, (15, 15), [(''population'', 5)]), (3, (40, 40), [(''population'', 7)])]\<rparr>], 0, [(1, OtherException ''empty graph'')])"
  using calls_and_heap [where pred = interval_pred and reducer = pandas_reducer
      and heap = "[\<lparr>columns = [''0''],
        rows = [(0, (0::real, 10::real), [(''0'', 100::real)]), (1, (10, 20), [(''0'', 101)]),
                (2, (20, 30), [(''0'', 102)])]\<rparr>,
        \<lparr>columns = [''population''],
        rows = [(0, (1::real, 1::real), [(''population'', 10::real)]), (1, (2, 2), [(''population'', 20)]),
                (2, (15, 15), [(''population'', 5)]), (3, (40, 40), [(''population'', 7)])]\<rparr>]"
      and hex = 0 and shape = 1 and how = How_inner and op = Op_within
      and agg = "[(''population'', ''sum'')]" and gdf = 0
      and ox = "\<lparr>ox_graph_from_polygon =
          (\<lambda>g n. if g = (10::real, 20::real) then Inl (OtherException ''empty graph'') else Inr (snd g)),
        ox_basic_stats = (\<lambda>gr. Inr (\<lambda>s. if s = ''n'' then Some gr else None)),
        ox_extended_stats = (\<lambda>gr sw. Inr (\<lambda>s. None))\<rparr>"
      and net_type = "()" and basic_stats = "[''n'']" and extended_stats = "[]"
      and sw = "(False, False, False, False, False)"]
  by (simp add: call_merge_shape_hex_def call_osmnx_graph_download_def
      merge_shape_hex_def sjoin_def sjoin_rows_def matches_def interval_pred_def
      left_cells_def right_cells_def suffixed_def groupby_agg_def group_keys_def group_values_def
      pandas_reducer_def present_def loc_set_list_def add_column_def set_cell_def
      osmnx_graph_download_def row_stats_def loc_set_def
      row_label_def row_geometry_def row_cells_def)

text \<open>
  The claim as written fails for the network annotator: after the call the data frame
  the caller passed in has the new column and its values.
\<close>

theorem calls_and_heap_counterexample:
  "call_osmnx_graph_download
       \<lparr>ox_graph_from_polygon =
          (\<lambda>g n. if g = (10::real, 20::real) then Inl (OtherException ''empty graph'') else Inr (snd g)),
        ox_basic_stats = (\<lambda>gr. Inr (\<lambda>s. if s = ''n'' then Some gr else None)),
        ox_extended_stats = (\<lambda>gr sw. Inr (\<lambda>s. None))\<rparr>
       [\<lparr>columns = [''0''],
        rows = [(0, (0::real, 10::real), [(''0'', 100::real)]), (1, (10, 20), [(''0'', 101)]),
                (2, (20, 30), [(''0'', 102)])]\<rparr>]
       0 () [''n''] [] (False, False, False, False, False)
     = ([\<lparr>columns = [''0'', ''n''],
        rows = [(0, (0::real, 10::real), [(''0'', 100::real), (''n'', 10)]), (1, (10, 20), [(''0'', 101)]),
                (2, (20, 30), [(''0'', 102), (''n'', 30)])]\<rparr>], 0, [(1, OtherException ''empty graph'')])
   \<and> \<lparr>columns = [''0'', ''n''],
        rows = [(0, (0::real, 10::real), [(''0'', 100::real), (''n'', 10)]), (1, (10, 20), [(''0'', 101)]),
                (2, (20, 30), [(''0'', 102), (''n'', 30)])]\<rparr>
     \<noteq> (\<lparr>columns = [''0''],
        rows = [(0, (0::real, 10::real), [(''0'', 100::real)]), (1, (10, 20), [(''0'', 101)]),
                (2, (20, 30), [(''0'', 102)])]\<rparr> :: (real \<times> real, real) frame)"
  by (simp add: call_merge_shape_hex_def call_osmnx_graph_download_def
      merge_shape_hex_def sjoin_def sjoin_rows_def matches_def interval_pred_def
      left_cells_def right_cells_def suffixed_def groupby_agg_def group_keys_def group_values_def
      pandas_reducer_def present_def loc_set_list_def add_column_def set_cell_def
      osmnx_graph_download_def row_stats_def loc_set_def
      row_label_def row_geometry_def row_cells_def)

section \<open>Properties of \<^verbatim>\<open>nn_search\<close>\<close>








lemma radians_rows_length [simp]: "length (radians_rows xs) = length xs"
  by (simp add: radians_rows_def)






end
